theory Spec2Isabelle
  imports Complex_Main "HOL-Library.Multiset"
begin

section \<open>Data model of \<open>doc_scanner/scanner.py\<close>\<close>

text \<open>
  The scanner keeps the detected lines in a pandas table with the columns \<open>hits\<close>,
  \<open>angle\<close>, \<open>intercept\<close> and, once classified, \<open>direction\<close>. A row of that table
  is a \<open>line\<close>; its \<open>direction\<close> cell is \<open>None\<close> while nothing has been written
  there (a missing column, or the NaN pandas puts into a fresh column). The table itself
  is its list of column labels, which is what \<open>list(lines)\<close> yields, and its rows
  in index order (the index is the range index \<open>0 .. n - 1\<close> that
  \<open>pd.DataFrame(array, columns = ...)\<close> creates). Floating-point numbers are read as
  real numbers.
\<close>

datatype error = KeyError string | ValueError | DegenerateGeometry | ParallelLines

record line =
  hits :: real
  angle :: real
  intercept :: real
  direction :: "string option"

record DataFrame =
  columns :: "string list"
  rows :: "line list"

text \<open>Of an image only \<open>shape\<close> is read: (number of rows, number of columns).\<close>

record image =
  shape :: "nat \<times> nat"

datatype point = Point (x_of: real) (y_of: real)

text \<open>
  Tables are Python objects: a variable holds a reference, and two variables may hold the
  same one. The store maps references to tables; \<open>next_ref\<close> is the first reference
  not yet handed out.
\<close>

record heap =
  objs :: "nat \<Rightarrow> DataFrame"
  next_ref :: nat

definition alloc :: "heap \<Rightarrow> DataFrame \<Rightarrow> heap \<times> nat" where
  "alloc h df = (h\<lparr>objs := (objs h)(next_ref h := df), next_ref := Suc (next_ref h)\<rparr>, next_ref h)"

text \<open>\<open>lines.copy()\<close>: a new table with the same contents.\<close>

definition copy :: "heap \<Rightarrow> nat \<Rightarrow> heap \<times> nat" where
  "copy h r = alloc h (objs h r)"

text \<open>\<open>lines['direction']\<close>: pandas raises \<open>KeyError\<close> for a label that is no column.\<close>

definition getitem_direction :: "DataFrame \<Rightarrow> error + string option list" where
  "getitem_direction df =
     (if ''direction'' \<in> set (columns df) then Inr (map direction (rows df))
      else Inl (KeyError ''direction''))"

text \<open>
  \<open>out._set_value(ix, 'direction', value)\<close> for an index \<open>ix\<close> of the table: the
  column is created when it is missing, and the cell of row \<open>ix\<close> is written.
\<close>

definition set_value :: "DataFrame \<Rightarrow> nat \<Rightarrow> string \<Rightarrow> DataFrame" where
  "set_value out ix v =
     out\<lparr>columns := (if ''direction'' \<in> set (columns out) then columns out
                      else columns out @ [''direction'']),
         rows := (rows out)[ix := (rows out ! ix)\<lparr>direction := Some v\<rparr>]\<rparr>"

text \<open>\<open>iterrows()\<close>: the pairs (index, row), taken from the table as it is at the start.\<close>

definition iterrows :: "DataFrame \<Rightarrow> (nat \<times> line) list" where
  "iterrows df = zip [0..<length (rows df)] (rows df)"

section \<open>\<open>_divide_line_orientation\<close>\<close>

text \<open>The body of the \<open>for\<close> loop (lines 131 to 141 of the source).\<close>

fun divide_loop :: "(nat \<times> line) list \<Rightarrow> real \<Rightarrow> DataFrame \<Rightarrow> DataFrame" where
  "divide_loop [] err out = out"
| "divide_loop ((ix, line) # rest) err out =
     divide_loop rest err
       (set_value out ix
          (if \<bar>angle line\<bar> < err then ''vertical''
           else if \<bar>angle line - pi / 2\<bar> < err then ''horizontal''
           else ''irrelevant''))"

text \<open>
  \<open>_divide_line_orientation(lines, err, inplace)\<close> on the store: \<open>out\<close> is a copy of
  \<open>lines\<close> when \<open>inplace\<close> is false and \<open>lines\<close> itself otherwise; the loop writes
  into \<open>out\<close>, which is returned.
\<close>

definition divide_line_orientation :: "heap \<Rightarrow> nat \<Rightarrow> real \<Rightarrow> bool \<Rightarrow> heap \<times> nat" where
  "divide_line_orientation h lines err inplace =
     (let (h1, out) = (if \<not> inplace then copy h lines else (h, lines))
      in (h1\<lparr>objs := (objs h1)(out := divide_loop (iterrows (objs h1 out)) err (objs h1 out))\<rparr>,
          out))"

text \<open>The call with the defaults of the signature: \<open>err = np.pi * 1 / 12, inplace = True\<close>.\<close>

definition divide_line_orientation_default :: "heap \<Rightarrow> nat \<Rightarrow> heap \<times> nat" where
  "divide_line_orientation_default h lines = divide_line_orientation h lines (pi * 1 / 12) True"

section \<open>The classification rule as the specification words it\<close>

datatype Orientation = Horizontal | Vertical | Irrelevant

definition classify :: "real \<Rightarrow> real \<Rightarrow> Orientation" where
  "classify tolerance a =
     (if \<bar>a\<bar> < tolerance then Vertical
      else if \<bar>a - pi / 2\<bar> < tolerance then Horizontal
      else Irrelevant)"

fun label :: "Orientation \<Rightarrow> string" where
  "label Vertical = ''vertical''"
| "label Horizontal = ''horizontal''"
| "label Irrelevant = ''irrelevant''"

section \<open>The module \<open>doc_scanner.math_utils\<close>\<close>

text \<open>
  \<open>scanner.py\<close> imports \<open>find_point_polar\<close>, \<open>points2line\<close> and
  \<open>intersection\<close> from \<open>doc_scanner.math_utils\<close>. The functions of the scanner
  take that module as a parameter \<open>mu\<close>: each of its functions either raises (the
  \<open>Inl\<close> results) or returns a value. A sampled segment is its two end points
  \<open>zip(x, y)\<close>; a line equation is the triple \<open>(a, b, c)\<close> of \<open>a x + b y = c\<close>.
\<close>

type_synonym segment = "(real \<times> real) \<times> (real \<times> real)"

type_synonym line_eq = "real \<times> real \<times> real"

record math_utils =
  find_point_polar :: "line \<Rightarrow> real \<times> real \<Rightarrow> error + real \<times> real"
  points2line :: "segment \<Rightarrow> error + line_eq"
  intersection :: "line_eq \<Rightarrow> line_eq \<Rightarrow> error + point"

text \<open>
  Modelled from the spec: \<open>find_point_polar\<close> of \<open>doc_scanner/math_utils.py\<close>, which
  is not among the sources. Section 4.1, \<open>toCartesianSegment\<close>: for each of the two
  x-coordinates, the y with \<open>x * cos(angle) + y * sin(angle) = distance\<close>; it fails with
  DegenerateGeometry when \<open>sin(angle)\<close> is within the numerical epsilon \<open>eps\<close> of zero.
\<close>

definition find_point_polar_spec :: "real \<Rightarrow> line \<Rightarrow> real \<times> real \<Rightarrow> error + real \<times> real" where
  "find_point_polar_spec eps l xr =
     (if \<bar>sin (angle l)\<bar> \<le> eps then Inl DegenerateGeometry
      else Inr ((intercept l - fst xr * cos (angle l)) / sin (angle l),
                (intercept l - snd xr * cos (angle l)) / sin (angle l)))"

text \<open>
  Modelled from the spec: \<open>points2line\<close> of \<open>doc_scanner/math_utils.py\<close>, which is not
  among the sources. Section 4.1, \<open>toLineEquation\<close>: coefficients \<open>(a, b, c)\<close> of a
  line \<open>a x + b y = c\<close> through both end points, with \<open>(a, b)\<close> not the zero vector;
  it fails with DegenerateGeometry if the two end points coincide.
\<close>

definition points2line_spec :: "segment \<Rightarrow> error + line_eq" where
  "points2line_spec s =
     (case s of ((x0, y0), (x1, y1)) \<Rightarrow>
        if (x0, y0) = (x1, y1) then Inl DegenerateGeometry
        else Inr (y0 - y1, x1 - x0, (y0 - y1) * x0 + (x1 - x0) * y0))"

text \<open>
  Modelled from the spec: \<open>intersection\<close> of \<open>doc_scanner/math_utils.py\<close>, which is not
  among the sources. Section 4.1, \<open>intersect\<close>: Cramer's rule on the two equations; it
  fails with ParallelLines when the determinant \<open>a1 * b2 - a2 * b1\<close> is within the
  numerical epsilon \<open>eps\<close> of zero.
\<close>

definition intersection_spec :: "real \<Rightarrow> line_eq \<Rightarrow> line_eq \<Rightarrow> error + point" where
  "intersection_spec eps l1 l2 =
     (case (l1, l2) of ((a1, b1, c1), (a2, b2, c2)) \<Rightarrow>
        if \<bar>a1 * b2 - a2 * b1\<bar> \<le> eps then Inl ParallelLines
        else Inr (Point ((c1 * b2 - c2 * b1) / (a1 * b2 - a2 * b1))
                        ((a1 * c2 - a2 * c1) / (a1 * b2 - a2 * b1))))"

text \<open>
  Modelled from the spec: the module \<open>doc_scanner.math_utils\<close> as a whole, made of
  the three functions above, for a numerical epsilon \<open>eps\<close>.
\<close>

definition math_utils_spec :: "real \<Rightarrow> math_utils" where
  "math_utils_spec eps =
     \<lparr>find_point_polar = find_point_polar_spec eps,
      points2line = points2line_spec,
      intersection = intersection_spec eps\<rparr>"

section \<open>\<open>_pairwise_intersection\<close>\<close>

text \<open>
  The parameter \<open>along_length = 50\<close> of the source is never read. A raise of a
  \<open>math_utils\<close> function leaves \<open>_pairwise_intersection\<close> at once; Python
  evaluates \<open>points2line(horizontal_line_points)\<close> before
  \<open>points2line(vertical_line_points)\<close> and both before \<open>intersection\<close>.
\<close>

definition pairwise_intersection ::
  "math_utils \<Rightarrow> line \<Rightarrow> line \<Rightarrow> image option \<Rightarrow> error + point" where
  "pairwise_intersection mu horizontal_polar vertical_polar contour_image =
     (let x = (case contour_image of
                 Some img \<Rightarrow> (0, real (snd (shape img)))
               | None \<Rightarrow> (0, 1000))
      in case find_point_polar mu horizontal_polar x of
           Inl e \<Rightarrow> Inl e
         | Inr y_h \<Rightarrow>
        (case find_point_polar mu vertical_polar x of
           Inl e \<Rightarrow> Inl e
         | Inr y_v \<Rightarrow>
        (let horizontal_line_points = ((fst x, fst y_h), (snd x, snd y_h));
             vertical_line_points = ((fst x, fst y_v), (snd x, snd y_v))
         in case points2line mu horizontal_line_points of
              Inl e \<Rightarrow> Inl e
            | Inr l1 \<Rightarrow>
           (case points2line mu vertical_line_points of
              Inl e \<Rightarrow> Inl e
            | Inr l2 \<Rightarrow> intersection mu l1 l2))))"

section \<open>\<open>_find_intersections\<close>\<close>

text \<open>
  The \<open>for\<close> loop over \<open>itertools.product(vertical_lines.iterrows(),
  horizontal_lines.iterrows())\<close>: the table \<open>intersections\<close>, which starts empty, is
  its list of rows, and \<open>intersections.append(point)\<close> adds the one row of
  \<open>point\<close> at the end. There is no \<open>try\<close> around the call of
  \<open>_pairwise_intersection\<close>: a raise there leaves the loop and the function.
\<close>

fun product_loop ::
  "math_utils \<Rightarrow> (line \<times> line) list \<Rightarrow> image option \<Rightarrow> point list \<Rightarrow> error + point list" where
  "product_loop mu [] contour_image intersections = Inr intersections"
| "product_loop mu ((vertical_line, horizontal_line) # rest) contour_image intersections =
     (case pairwise_intersection mu horizontal_line vertical_line contour_image of
        Inl e \<Rightarrow> Inl e
      | Inr point \<Rightarrow> product_loop mu rest contour_image (intersections @ [point]))"

text \<open>
  \<open>lines[lines['direction'] == 'vertical']\<close>: the rows whose cell is that string, in
  table order.
\<close>

definition select_direction :: "DataFrame \<Rightarrow> string \<Rightarrow> line list" where
  "select_direction df d = filter (\<lambda>l. direction l = Some d) (rows df)"

text \<open>
  \<open>_find_intersections(lines, contour_image)\<close>. The handler of the \<open>try\<close> catches
  \<open>ValueError\<close> only, so the \<open>KeyError\<close> of a missing column leaves the function.
  The result is the store and the rows of \<open>intersections\<close>.
\<close>

definition find_intersections ::
  "math_utils \<Rightarrow> heap \<Rightarrow> nat \<Rightarrow> image option \<Rightarrow> error + heap \<times> point list" where
  "find_intersections mu h lines contour_image =
     (case (case getitem_direction (objs h lines) of
              Inl e \<Rightarrow> if e = ValueError then Inr (fst (divide_line_orientation_default h lines))
                       else Inl e
            | Inr _ \<Rightarrow> Inr h) of
        Inl e \<Rightarrow> Inl e
      | Inr h1 \<Rightarrow>
          (case getitem_direction (objs h1 lines) of
             Inl e \<Rightarrow> Inl e
           | Inr _ \<Rightarrow>
               (let vertical_lines = select_direction (objs h1 lines) ''vertical'';
                    horizontal_lines = select_direction (objs h1 lines) ''horizontal'';
                    combinations = List.product vertical_lines horizontal_lines
                in case product_loop mu combinations contour_image [] of
                     Inl e \<Rightarrow> Inl e
                   | Inr intersections \<Rightarrow> Inr (h1, intersections))))"

section \<open>\<open>select_edge\<close>\<close>

text \<open>
  \<open>select_edge\<close> reads \<open>result.hough\<close> and \<open>result.contour_image\<close>. The peak
  finder \<open>hough_line_peaks\<close> of scikit-image is a parameter: \<open>peak_finder\<close> stands
  for lines 92 to 94 up to the table constructor, that is for the rows
  \<open>(hits, angle, intercept)\<close> of \<open>np.array(lines).T\<close>.
\<close>

record 'hough ProcessingResult =
  hough :: 'hough
  contour_image :: image

definition new_lines :: "(real \<times> real \<times> real) list \<Rightarrow> DataFrame" where
  "new_lines peaks =
     \<lparr>columns = [''hits'', ''angle'', ''intercept''],
      rows = map (\<lambda>(n, a, d). \<lparr>hits = n, angle = a, intercept = d, direction = None\<rparr>) peaks\<rparr>"

text \<open>One call \<open>ax.plot(x, y, fmt)\<close>; the axes object is the list of its calls so far.\<close>

datatype plot = Plot "real list" "real list" string

text \<open>The loop of lines 99 to 108, which draws every line of the table.\<close>

fun plot_loop :: "math_utils \<Rightarrow> line list \<Rightarrow> image \<Rightarrow> plot list \<Rightarrow> error + plot list" where
  "plot_loop mu [] img ax = Inr ax"
| "plot_loop mu (line # rest) img ax =
     (let x = (0, real (snd (shape img)))
      in case find_point_polar mu line x of
           Inl e \<Rightarrow> Inl e
         | Inr y \<Rightarrow>
             (let color = (if direction line = Some ''vertical'' then ''r''
                           else if direction line = Some ''horizontal'' then ''g''
                           else ''k'')
              in plot_loop mu rest img (ax @ [Plot [fst x, snd x] [fst y, snd y] (''-'' @ color)])))"

text \<open>
  Lines 110 to 115: \<open>intersections['x']\<close> raises \<open>KeyError\<close> on the table without
  rows, which has no column, and the handler passes.
\<close>

definition plot_intersections :: "point list \<Rightarrow> plot list \<Rightarrow> plot list" where
  "plot_intersections intersections ax =
     (if intersections = [] then ax
      else ax @ [Plot (map x_of intersections) (map y_of intersections) ''bx''])"

text \<open>
  \<open>select_edge(result, ax, image)\<close>: the store after the call, the axes after the call
  and the returned value \<open>list(lines)\<close>, the column labels of the table. The
  parameter \<open>image\<close> is written \<open>img\<close>; an axes object is true in Python's
  \<open>if ax\<close>, and \<open>None\<close> is false.
\<close>

definition select_edge ::
  "math_utils \<Rightarrow> ('hough \<Rightarrow> (real \<times> real \<times> real) list) \<Rightarrow> heap \<Rightarrow> 'hough ProcessingResult \<Rightarrow>
   plot list option \<Rightarrow> image option \<Rightarrow> error + heap \<times> plot list option \<times> string list" where
  "select_edge mu peak_finder h result ax img =
     (let (h1, lines) = alloc h (new_lines (peak_finder (hough result)));
          (h2, _) = divide_line_orientation_default h1 lines
      in case find_intersections mu h2 lines (Some (contour_image result)) of
           Inl e \<Rightarrow> Inl e
         | Inr (h3, intersections) \<Rightarrow>
             (case (ax, img) of
                (Some a, Some im) \<Rightarrow>
                  (case plot_loop mu (rows (objs h3 lines)) im a of
                     Inl e \<Rightarrow> Inl e
                   | Inr a1 \<Rightarrow>
                       Inr (h3, Some (plot_intersections intersections a1), columns (objs h3 lines)))
              | _ \<Rightarrow> Inr (h3, ax, columns (objs h3 lines))))"

text \<open>
  The store after lines 94 and 95 of \<open>select_edge\<close>: the table of the peaks is a new
  object, which the default call of \<open>_divide_line_orientation\<close> has classified. Its
  reference is \<open>next_ref h\<close>.
\<close>

definition classified_store :: "heap \<Rightarrow> (real \<times> real \<times> real) list \<Rightarrow> heap" where
  "classified_store h peaks =
     fst (divide_line_orientation_default (fst (alloc h (new_lines peaks))) (next_ref h))"

section \<open>Notions of the specification used to state the properties\<close>

text \<open>
  Steps 2a to 2c of section 4.3 over an explicit sampling interval \<open>xRange\<close>: both
  lines are converted to segments over \<open>xRange\<close>, each segment to a line equation, and
  the two equations are intersected.
\<close>

definition resolve_pair :: "math_utils \<Rightarrow> real \<times> real \<Rightarrow> line \<Rightarrow> line \<Rightarrow> error + point" where
  "resolve_pair mu xRange hl vl =
     (case find_point_polar mu hl xRange of
        Inl e \<Rightarrow> Inl e
      | Inr yh \<Rightarrow>
     (case find_point_polar mu vl xRange of
        Inl e \<Rightarrow> Inl e
      | Inr yv \<Rightarrow>
     (case points2line mu ((fst xRange, fst yh), (snd xRange, snd yh)) of
        Inl e \<Rightarrow> Inl e
      | Inr l1 \<Rightarrow>
     (case points2line mu ((fst xRange, fst yv), (snd xRange, snd yv)) of
        Inl e \<Rightarrow> Inl e
      | Inr l2 \<Rightarrow> intersection mu l1 l2))))"

text \<open>The points a call of the resolver hands back, as a set: none when it raises.\<close>

definition points_of :: "error + heap \<times> point list \<Rightarrow> point set" where
  "points_of r = (case r of Inl e \<Rightarrow> {} | Inr (h, pts) \<Rightarrow> set pts)"

text \<open>The number of points a call of the resolver hands back: none when it raises.\<close>

definition count_of :: "error + heap \<times> point list \<Rightarrow> nat" where
  "count_of r = (case r of Inl e \<Rightarrow> 0 | Inr (h, pts) \<Rightarrow> length pts)"

text \<open>
  The classified table of section 4.2: every line carries the label of its orientation;
  a table without rows keeps its columns as they are.
\<close>

definition classified :: "real \<Rightarrow> DataFrame \<Rightarrow> DataFrame" where
  "classified tolerance df =
     \<lparr>columns = (if rows df = [] \<or> ''direction'' \<in> set (columns df) then columns df
                 else columns df @ [''direction'']),
      rows = map (\<lambda>l. l\<lparr>direction := Some (label (classify tolerance (angle l)))\<rparr>) (rows df)\<rparr>"

section \<open>Concrete inputs\<close>

text \<open>A store that has handed out no reference yet.\<close>

definition heap0 :: heap where
  "heap0 = \<lparr>objs = (\<lambda>r. \<lparr>columns = [], rows = []\<rparr>), next_ref = 0\<rparr>"

text \<open>
  Peaks as \<open>(hits, angle, intercept)\<close>: two lines near the vertical, two horizontal
  ones and a diagonal.
\<close>

definition crossing_peaks :: "(real \<times> real \<times> real) list" where
  "crossing_peaks =
     [(5, pi / 24, 30), (4, pi / 2, 50), (3, pi / 4, 10), (2, pi / 24, 40), (1, pi / 2, 60)]"

text \<open>The table of these peaks after classification with the default tolerance.\<close>

definition crossing_table :: DataFrame where
  "crossing_table =
     \<lparr>columns = [''hits'', ''angle'', ''intercept'', ''direction''],
      rows = [\<lparr>hits = 5, angle = pi / 24, intercept = 30, direction = Some ''vertical''\<rparr>,
              \<lparr>hits = 4, angle = pi / 2, intercept = 50, direction = Some ''horizontal''\<rparr>,
              \<lparr>hits = 3, angle = pi / 4, intercept = 10, direction = Some ''irrelevant''\<rparr>,
              \<lparr>hits = 2, angle = pi / 24, intercept = 40, direction = Some ''vertical''\<rparr>,
              \<lparr>hits = 1, angle = pi / 2, intercept = 60, direction = Some ''horizontal''\<rparr>]\<rparr>"

text \<open>
  A table whose first line labelled vertical is parallel to the horizontal line (both
  have the angle \<open>pi / 2\<close>), as in the parallel-pair test of the specification.
\<close>

definition parallel_table :: DataFrame where
  "parallel_table =
     \<lparr>columns = [''hits'', ''angle'', ''intercept'', ''direction''],
      rows = [\<lparr>hits = 3, angle = pi / 2, intercept = 10, direction = Some ''vertical''\<rparr>,
              \<lparr>hits = 2, angle = pi / 24, intercept = 30, direction = Some ''vertical''\<rparr>,
              \<lparr>hits = 1, angle = pi / 2, intercept = 50, direction = Some ''horizontal''\<rparr>]\<rparr>"

text \<open>One line near the vertical and one horizontal line, and their classified table.\<close>

definition corner_peaks :: "(real \<times> real \<times> real) list" where
  "corner_peaks = [(2, pi / 24, 30), (1, pi / 2, 50)]"

definition corner_table :: DataFrame where
  "corner_table =
     \<lparr>columns = [''hits'', ''angle'', ''intercept'', ''direction''],
      rows = [\<lparr>hits = 2, angle = pi / 24, intercept = 30, direction = Some ''vertical''\<rparr>,
              \<lparr>hits = 1, angle = pi / 2, intercept = 50, direction = Some ''horizontal''\<rparr>]\<rparr>"

text \<open>A processing result with a contour image of 480 rows and 640 columns.\<close>

definition frame_result :: "unit ProcessingResult" where
  "frame_result = \<lparr>hough = (), contour_image = \<lparr>shape = (480, 640)\<rparr>\<rparr>"

text \<open>The store in which reference 0 holds the given table.\<close>

definition heap_with :: "DataFrame \<Rightarrow> heap" where
  "heap_with df = fst (alloc heap0 df)"

text \<open>The corner of a line \<open>v\<close> and a line \<open>hz\<close> of angle \<open>pi / 2\<close>.\<close>

definition corner :: "line \<Rightarrow> line \<Rightarrow> point" where
  "corner v hz =
     Point ((intercept v - intercept hz * sin (angle v)) / cos (angle v)) (intercept hz)"

section \<open>Classification: what the loop writes\<close>

lemma divide_loop_append:
  "divide_loop (xs @ ys) err out = divide_loop ys err (divide_loop xs err out)"
  by (induction xs err out rule: divide_loop.induct) simp_all

lemma label_classify:
  "label (classify err a) =
     (if \<bar>a\<bar> < err then ''vertical''
      else if \<bar>a - pi / 2\<bar> < err then ''horizontal'' else ''irrelevant'')"
  by (simp add: classify_def)

lemma rows_divide_loop_prefix:
  "length ys \<le> length (rows out) \<Longrightarrow>
   rows (divide_loop (zip [0..<length ys] ys) err out) =
     map2 (\<lambda>l s. l\<lparr>direction := Some (label (classify err (angle s)))\<rparr>)
       (take (length ys) (rows out)) ys @ drop (length ys) (rows out)"
proof (induction ys rule: rev_induct)
  case Nil
  then show ?case by simp
next
  case (snoc y ys)
  let ?n = "length ys"
  let ?f = "\<lambda>l s. l\<lparr>direction := Some (label (classify err (angle s)))\<rparr>"
  let ?R = "rows out"
  from snoc.prems have n: "?n < length ?R" by simp
  have zip_snoc: "zip [0..<length (ys @ [y])] (ys @ [y]) = zip [0..<?n] ys @ [(?n, y)]"
    by simp
  have prev: "rows (divide_loop (zip [0..<?n] ys) err out) =
      map2 ?f (take ?n ?R) ys @ drop ?n ?R"
    using snoc.IH n by simp
  have len: "length (map2 ?f (take ?n ?R) ys) = ?n"
    using n by simp
  have dropn: "drop ?n ?R = ?R ! ?n # drop (Suc ?n) ?R"
    using n by (simp add: Cons_nth_drop_Suc)
  have upd: "(map2 ?f (take ?n ?R) ys @ drop ?n ?R)
               [?n := ((map2 ?f (take ?n ?R) ys @ drop ?n ?R) ! ?n)
                        \<lparr>direction := Some (label (classify err (angle y)))\<rparr>]
             = map2 ?f (take ?n ?R) ys @ [?f (?R ! ?n) y] @ drop (Suc ?n) ?R"
    using len dropn by (simp add: list_update_append nth_append)
  have tak: "map2 ?f (take (Suc ?n) ?R) (ys @ [y]) = map2 ?f (take ?n ?R) ys @ [?f (?R ! ?n) y]"
    using n by (simp add: take_Suc_conv_app_nth)
  show ?case
    unfolding zip_snoc divide_loop_append
    using prev upd tak
    by (simp add: set_value_def label_classify)
qed

lemma rows_divide_loop:
  "rows (divide_loop (iterrows df) err df) =
     map (\<lambda>l. l\<lparr>direction := Some (label (classify err (angle l)))\<rparr>) (rows df)"
proof -
  have "rows (divide_loop (zip [0..<length (rows df)] (rows df)) err df) =
          map2 (\<lambda>l s. l\<lparr>direction := Some (label (classify err (angle s)))\<rparr>)
            (rows df) (rows df)"
    using rows_divide_loop_prefix [of "rows df" df err] by simp
  also have "\<dots> = map (\<lambda>l. l\<lparr>direction := Some (label (classify err (angle l)))\<rparr>) (rows df)"
    by (induction "rows df") (simp_all add: zip_same_conv_map)
  finally show ?thesis by (simp add: iterrows_def)
qed

lemma columns_set_value:
  "columns (set_value out ix v) =
     (if ''direction'' \<in> set (columns out) then columns out else columns out @ [''direction''])"
  by (simp add: set_value_def)

lemma columns_divide_loop:
  "columns (divide_loop its err out) =
     (if its = [] \<or> ''direction'' \<in> set (columns out) then columns out
      else columns out @ [''direction''])"
  by (induction its err out rule: divide_loop.induct) (simp_all add: columns_set_value)

lemma divide_loop_classified:
  "divide_loop (iterrows df) err df = classified err df"
proof -
  have "columns (divide_loop (iterrows df) err df) = columns (classified err df)"
    by (simp add: columns_divide_loop iterrows_def classified_def)
  moreover have "rows (divide_loop (iterrows df) err df) = rows (classified err df)"
    by (simp add: rows_divide_loop classified_def)
  ultimately show ?thesis by simp
qed

lemma divide_inplace:
  "divide_line_orientation h lines err True =
     (h\<lparr>objs := (objs h)(lines := classified err (objs h lines))\<rparr>, lines)"
  by (simp add: divide_line_orientation_def divide_loop_classified)

lemma divide_copy:
  "divide_line_orientation h lines err False =
     (h\<lparr>objs := (objs h)(next_ref h := classified err (objs h lines)),
        next_ref := Suc (next_ref h)\<rparr>, next_ref h)"
  by (simp add: divide_line_orientation_def copy_def alloc_def divide_loop_classified)

lemma divide_default:
  "divide_line_orientation_default h lines =
     (h\<lparr>objs := (objs h)(lines := classified (pi / 12) (objs h lines))\<rparr>, lines)"
  by (simp add: divide_line_orientation_default_def divide_inplace)

lemma classified_crossing: "classified (pi / 12) (new_lines crossing_peaks) = crossing_table"
  by (simp add: classified_def new_lines_def crossing_peaks_def crossing_table_def classify_def)

lemma heap_with_simps:
  "objs (heap_with df) 0 = df" "next_ref (heap_with df) = 1"
  by (simp_all add: heap_with_def alloc_def heap0_def)

lemma heap_with_update: "heap_with df\<lparr>objs := (objs (heap_with df))(0 := df')\<rparr> = heap_with df'"
  by (simp add: heap_with_def alloc_def heap0_def)

section \<open>The resolver: what the loop over the pairs returns\<close>

lemma find_intersections_unfold:
  "find_intersections mu h lines img =
     (if ''direction'' \<in> set (columns (objs h lines)) then
        (case product_loop mu (List.product (select_direction (objs h lines) ''vertical'')
                 (select_direction (objs h lines) ''horizontal'')) img [] of
           Inl e \<Rightarrow> Inl e | Inr pts \<Rightarrow> Inr (h, pts))
      else Inl (KeyError ''direction''))"
  by (simp add: find_intersections_def getitem_direction_def Let_def)

lemma product_loop_results:
  "product_loop mu ps img acc =
     (case List.find isl (map (\<lambda>(v, hz). pairwise_intersection mu hz v img) ps) of
        Some r \<Rightarrow> Inl (projl r)
      | None \<Rightarrow> Inr (acc @ map (\<lambda>(v, hz). projr (pairwise_intersection mu hz v img)) ps))"
proof (induction ps arbitrary: acc)
  case Nil
  then show ?case by simp
next
  case (Cons p ps)
  obtain v hz where p: "p = (v, hz)" by (cases p)
  show ?case
  proof (cases "pairwise_intersection mu hz v img")
    case (Inl e)
    then show ?thesis by (simp add: p split: option.split)
  next
    case (Inr pt)
    then show ?thesis by (simp add: p Cons.IH split: option.split)
  qed
qed

lemma find_isl_append_failure:
  assumes "\<forall>p \<in> set before. \<not> isl (F p)" and "F p = Inl e"
  shows "List.find isl (map F (before @ p # after)) = Some (Inl e)"
  using assms by (induction before) simp_all

lemma find_intersections_results:
  "find_intersections mu h lines img =
     (if ''direction'' \<in> set (columns (objs h lines)) then
        (case List.find isl (map (\<lambda>(v, hz). pairwise_intersection mu hz v img)
                 (List.product (select_direction (objs h lines) ''vertical'')
                    (select_direction (objs h lines) ''horizontal''))) of
           Some r \<Rightarrow> Inl (projl r)
         | None \<Rightarrow> Inr (h, map (\<lambda>(v, hz). projr (pairwise_intersection mu hz v img))
                 (List.product (select_direction (objs h lines) ''vertical'')
                    (select_direction (objs h lines) ''horizontal''))))
      else Inl (KeyError ''direction''))"
  by (simp add: find_intersections_unfold product_loop_results split: option.split)

lemma points_of_find_intersections:
  "points_of (find_intersections mu h lines img) =
     (if ''direction'' \<in> set (columns (objs h lines)) \<and>
         (\<forall>p \<in> set (select_direction (objs h lines) ''vertical'') \<times>
                 set (select_direction (objs h lines) ''horizontal'').
            \<not> isl (case p of (v, hz) \<Rightarrow> pairwise_intersection mu hz v img))
      then (\<lambda>(v, hz). projr (pairwise_intersection mu hz v img)) `
             (set (select_direction (objs h lines) ''vertical'') \<times>
              set (select_direction (objs h lines) ''horizontal''))
      else {})"
proof -
  let ?ps = "List.product (select_direction (objs h lines) ''vertical'')
               (select_direction (objs h lines) ''horizontal'')"
  let ?F = "\<lambda>(v, hz). pairwise_intersection mu hz v img"
  have none: "List.find isl (map ?F ?ps) = None \<longleftrightarrow> (\<forall>p \<in> set ?ps. \<not> isl (?F p))"
    by (auto simp add: find_None_iff)
  show ?thesis
  proof (cases "List.find isl (map ?F ?ps)")
    case None
    then have "\<forall>p \<in> set ?ps. \<not> isl (?F p)" using none by simp
    with None show ?thesis
      by (simp add: find_intersections_results points_of_def image_def split_def) 
  next
    case (Some r)
    then have "\<not> (\<forall>p \<in> set ?ps. \<not> isl (?F p))" using none by simp
    with Some show ?thesis
      by (auto simp add: find_intersections_results points_of_def)
  qed
qed

lemma isl_find_intersections:
  "isl (find_intersections mu h lines img) \<longleftrightarrow>
     ''direction'' \<notin> set (columns (objs h lines)) \<or>
     (\<exists>v \<in> set (select_direction (objs h lines) ''vertical'').
      \<exists>hz \<in> set (select_direction (objs h lines) ''horizontal'').
        isl (pairwise_intersection mu hz v img))"
proof -
  let ?ps = "List.product (select_direction (objs h lines) ''vertical'')
               (select_direction (objs h lines) ''horizontal'')"
  let ?F = "\<lambda>(v, hz). pairwise_intersection mu hz v img"
  have "List.find isl (map ?F ?ps) = None \<longleftrightarrow> (\<forall>p \<in> set ?ps. \<not> isl (?F p))"
    by (auto simp add: find_None_iff)
  then show ?thesis
    by (cases "List.find isl (map ?F ?ps)") (auto simp add: find_intersections_results)
qed

section \<open>\<open>select_edge\<close>: what it hands back\<close>

lemma columns_classified_new_lines:
  "columns (classified t (new_lines peaks)) =
     (if peaks = [] then [''hits'', ''angle'', ''intercept'']
      else [''hits'', ''angle'', ''intercept'', ''direction''])"
  by (simp add: classified_def new_lines_def)

lemma objs_classified_store:
  "objs (classified_store h peaks) (next_ref h) = classified (pi / 12) (new_lines peaks)"
  by (simp add: classified_store_def alloc_def divide_default)

lemma select_edge_classified:
  "select_edge mu pf h result ax img =
     (case find_intersections mu
             (classified_store h (pf (hough result)))
             (next_ref h) (Some (contour_image result)) of
        Inl e \<Rightarrow> Inl e
      | Inr (h3, intersections) \<Rightarrow>
          (case (ax, img) of
             (Some a, Some im) \<Rightarrow>
               (case plot_loop mu (rows (objs h3 (next_ref h))) im a of
                  Inl e \<Rightarrow> Inl e
                | Inr a1 \<Rightarrow>
                    Inr (h3, Some (plot_intersections intersections a1),
                         columns (objs h3 (next_ref h))))
           | _ \<Rightarrow> Inr (h3, ax, columns (objs h3 (next_ref h)))))"
  by (simp add: select_edge_def classified_store_def alloc_def divide_default)

lemma find_intersections_keeps_store:
  "find_intersections mu h lines img = Inr (h3, pts) \<Longrightarrow> h3 = h"
  by (auto simp add: find_intersections_results split: if_splits option.splits)

lemma find_intersections_needs_column:
  "find_intersections mu h lines img = Inr (h3, pts) \<Longrightarrow>
   ''direction'' \<in> set (columns (objs h lines))"
  by (auto simp add: find_intersections_results split: if_splits)

section \<open>The geometry of the specification at a crossing pair\<close>

lemma sin24: "0 < sin (pi / 24)"
  by (rule sin_gt_zero) (simp_all)

lemma cos24: "0 < cos (pi / 24)"
  by (rule cos_gt_zero_pi) (simp_all)

lemma pairwise_resolve_pair:
  "pairwise_intersection mu hp vp img =
     resolve_pair mu (case img of Some i \<Rightarrow> (0, real (snd (shape i))) | None \<Rightarrow> (0, 1000)) hp vp"
  by (cases img) (simp_all add: pairwise_intersection_def resolve_pair_def Let_def split: sum.split)

lemma resolve_pair_spec_corner:
  assumes s1: "sin (angle hz) = 1" and c1: "cos (angle hz) = 0"
    and sv: "sin (angle v) \<noteq> 0" and cv: "cos (angle v) \<noteq> 0" and w: "w \<noteq> 0"
  shows "resolve_pair (math_utils_spec 0) (0, w) hz v = Inr (corner v hz)"
proof -
  let ?s = "sin (angle v)" and ?c = "cos (angle v)"
  have fh: "find_point_polar (math_utils_spec 0) hz (0, w) = Inr (intercept hz, intercept hz)"
    by (simp add: math_utils_spec_def find_point_polar_spec_def s1 c1)
  have fv: "find_point_polar (math_utils_spec 0) v (0, w) =
      Inr (intercept v / ?s, (intercept v - w * ?c) / ?s)"
    using sv by (simp add: math_utils_spec_def find_point_polar_spec_def)
  have lh: "points2line (math_utils_spec 0) ((0, intercept hz), (w, intercept hz)) =
      Inr (0, w, w * intercept hz)"
    using w by (simp add: math_utils_spec_def points2line_spec_def)
  have ne: "intercept v / ?s \<noteq> (intercept v - w * ?c) / ?s"
    using sv cv w by (simp add: field_simps)
  have lv: "points2line (math_utils_spec 0)
        ((0, intercept v / ?s), (w, (intercept v - w * ?c) / ?s)) =
      Inr (w * ?c / ?s, w, w * (intercept v / ?s))"
    using w sv by (simp add: math_utils_spec_def points2line_spec_def field_simps)
  have det: "0 * w - (w * ?c / ?s) * w \<noteq> 0"
    using sv cv w by simp
  have px: "(w * intercept hz * w - w * (intercept v / ?s) * w) / (0 * w - (w * ?c / ?s) * w)
      = (intercept v - intercept hz * ?s) / ?c"
    using sv cv w by (simp add: field_simps)
  have py: "(0 * (w * (intercept v / ?s)) - (w * ?c / ?s) * (w * intercept hz)) /
      (0 * w - (w * ?c / ?s) * w) = intercept hz"
    using sv cv w by (simp add: field_simps)
  have "intersection (math_utils_spec 0) (0, w, w * intercept hz)
      (w * ?c / ?s, w, w * (intercept v / ?s)) = Inr (corner v hz)"
    using det px py by (simp add: math_utils_spec_def intersection_spec_def corner_def)
  then show ?thesis
    by (simp add: resolve_pair_def fh fv lh lv)
qed

lemma parallel_pair:
  "pairwise_intersection (math_utils_spec 0)
     \<lparr>hits = 1, angle = pi / 2, intercept = 50, direction = Some ''horizontal''\<rparr>
     \<lparr>hits = 3, angle = pi / 2, intercept = 10, direction = Some ''vertical''\<rparr> None =
   Inl ParallelLines"
  by (simp add: pairwise_intersection_def math_utils_spec_def find_point_polar_spec_def
      points2line_spec_def intersection_spec_def)

lemma crossing_pair:
  assumes "angle hz = pi / 2" and "angle v = pi / 24"
  shows "pairwise_intersection (math_utils_spec 0) hz v None = Inr (corner v hz)"
proof -
  have "sin (angle hz) = 1" "cos (angle hz) = 0"
    by (simp_all add: assms(1))
  moreover have "sin (angle v) \<noteq> 0" "cos (angle v) \<noteq> 0"
    using sin24 cos24 by (simp_all add: assms(2))
  ultimately have "resolve_pair (math_utils_spec 0) (0, 1000) hz v = Inr (corner v hz)"
    by (intro resolve_pair_spec_corner) simp_all
  then show ?thesis
    by (simp add: pairwise_resolve_pair)
qed

lemma parallel_table_buckets:
  "select_direction parallel_table ''vertical'' =
     [\<lparr>hits = 3, angle = pi / 2, intercept = 10, direction = Some ''vertical''\<rparr>,
      \<lparr>hits = 2, angle = pi / 24, intercept = 30, direction = Some ''vertical''\<rparr>]"
  "select_direction parallel_table ''horizontal'' =
     [\<lparr>hits = 1, angle = pi / 2, intercept = 50, direction = Some ''horizontal''\<rparr>]"
  "''direction'' \<in> set (columns parallel_table)"
  by (simp_all add: select_direction_def parallel_table_def)

lemma crossing_table_buckets:
  "select_direction crossing_table ''vertical'' =
     [\<lparr>hits = 5, angle = pi / 24, intercept = 30, direction = Some ''vertical''\<rparr>,
      \<lparr>hits = 2, angle = pi / 24, intercept = 40, direction = Some ''vertical''\<rparr>]"
  "select_direction crossing_table ''horizontal'' =
     [\<lparr>hits = 4, angle = pi / 2, intercept = 50, direction = Some ''horizontal''\<rparr>,
      \<lparr>hits = 1, angle = pi / 2, intercept = 60, direction = Some ''horizontal''\<rparr>]"
  "''direction'' \<in> set (columns crossing_table)"
  by (simp_all add: select_direction_def crossing_table_def)

lemma map_product:
  "map (\<lambda>(v, hz). g v hz) (List.product vs hs) = concat (map (\<lambda>v. map (\<lambda>hz. g v hz) hs) vs)"
  by (induction vs) (simp_all add: comp_def)

lemma crossing_pair_image:
  assumes "angle hz = pi / 2" and "angle v = pi / 24" and "snd (shape i) \<noteq> 0"
  shows "pairwise_intersection (math_utils_spec 0) hz v (Some i) = Inr (corner v hz)"
proof -
  have "sin (angle hz) = 1" "cos (angle hz) = 0"
    by (simp_all add: assms(1))
  moreover have "sin (angle v) \<noteq> 0" "cos (angle v) \<noteq> 0"
    using sin24 cos24 by (simp_all add: assms(2))
  ultimately have "resolve_pair (math_utils_spec 0) (0, real (snd (shape i))) hz v =
      Inr (corner v hz)"
    using assms(3) by (intro resolve_pair_spec_corner) simp_all
  then show ?thesis
    by (simp add: pairwise_resolve_pair)
qed

lemma classified_corner: "classified (pi / 12) (new_lines corner_peaks) = corner_table"
  by (simp add: classified_def new_lines_def corner_peaks_def corner_table_def classify_def)

lemma classified_store_heap0: "classified_store heap0 peaks = heap_with (classified (pi / 12) (new_lines peaks))"
  by (simp add: classified_store_def heap_with_def alloc_def heap0_def divide_default)

lemma corner_table_buckets:
  "select_direction corner_table ''vertical'' =
     [\<lparr>hits = 2, angle = pi / 24, intercept = 30, direction = Some ''vertical''\<rparr>]"
  "select_direction corner_table ''horizontal'' =
     [\<lparr>hits = 1, angle = pi / 2, intercept = 50, direction = Some ''horizontal''\<rparr>]"
  "''direction'' \<in> set (columns corner_table)"
  by (simp_all add: select_direction_def corner_table_def)

lemma corner_table_resolved:
  "find_intersections (math_utils_spec 0) (heap_with corner_table) 0
     (Some (contour_image frame_result)) =
   Inr (heap_with corner_table, [Point ((30 - 50 * sin (pi / 24)) / cos (pi / 24)) 50])"
  by (simp add: find_intersections_results heap_with_simps corner_table_buckets
      crossing_pair_image frame_result_def corner_def)

lemma next_ref_heap0: "next_ref heap0 = 0"
  by (simp add: heap0_def)

section \<open>The properties\<close>

subsection \<open>Classification\<close>

text \<open>
  C2. For every polar line and tolerance \<open>t\<close>, classification assigns Vertical when
  \<open>|angle| < t\<close>, otherwise Horizontal when \<open>|angle - pi / 2| < t\<close>, otherwise
  Irrelevant: the table that \<open>_divide_line_orientation\<close> returns holds the rows of its
  input, each with the label of the orientation that the rule of the specification gives
  to its angle. With \<open>t = pi / 12\<close> the angle 0 is Vertical, \<open>pi / 2\<close> is Horizontal
  and \<open>pi / 4\<close> is Irrelevant.
\<close>

theorem classification_rule:
  "rows (objs (fst (divide_line_orientation h lines t inplace))
              (snd (divide_line_orientation h lines t inplace))) =
     map (\<lambda>l. l\<lparr>direction := Some (label (classify t (angle l)))\<rparr>) (rows (objs h lines))
   \<and> classify t a =
       (if \<bar>a\<bar> < t then Vertical else if \<bar>a - pi / 2\<bar> < t then Horizontal else Irrelevant)
   \<and> classify (pi / 12) 0 = Vertical
   \<and> classify (pi / 12) (pi / 2) = Horizontal
   \<and> classify (pi / 12) (pi / 4) = Irrelevant"
  by (simp add: divide_line_orientation_def copy_def alloc_def rows_divide_loop classify_def)

text \<open>
  C5 as stated fails: the default call writes into its input. At the table of
  \<open>crossing_peaks\<close> held by reference 0, the default call returns reference 0 itself,
  and the table held there has changed from the unclassified to the classified one.
\<close>

theorem default_classification_writes_into_input:
  "divide_line_orientation_default (heap_with (new_lines crossing_peaks)) 0 =
     (heap_with crossing_table, 0)
   \<and> objs (heap_with (new_lines crossing_peaks)) 0 = new_lines crossing_peaks
   \<and> objs (heap_with crossing_table) 0 = crossing_table
   \<and> crossing_table \<noteq> new_lines crossing_peaks"
  by (simp add: divide_default heap_with_simps heap_with_update classified_crossing)
    (simp add: crossing_table_def new_lines_def)

text \<open>
  C5, amended. The default call is the in-place one (\<open>inplace = True\<close>): it replaces
  the input table by the classified table and returns the input's own reference. Only
  with \<open>inplace = False\<close> is the input table left as it was, the classified table
  being a new object.
\<close>

theorem inplace_is_the_default:
  "divide_line_orientation_default h lines = divide_line_orientation h lines (pi / 12) True
   \<and> divide_line_orientation h lines err True =
       (h\<lparr>objs := (objs h)(lines := classified err (objs h lines))\<rparr>, lines)
   \<and> (lines < next_ref h \<longrightarrow>
        snd (divide_line_orientation h lines err False) = next_ref h
        \<and> objs (fst (divide_line_orientation h lines err False)) lines = objs h lines
        \<and> objs (fst (divide_line_orientation h lines err False)) (next_ref h) =
            classified err (objs h lines))"
  by (simp add: divide_line_orientation_default_def divide_inplace divide_copy)

theorem inplace_is_the_default_witness:
  "(0::nat) < next_ref (heap_with (new_lines crossing_peaks))
   \<and> snd (divide_line_orientation (heap_with (new_lines crossing_peaks)) 0 (pi / 12) False) = 1
   \<and> objs (fst (divide_line_orientation (heap_with (new_lines crossing_peaks)) 0 (pi / 12) False)) 0
        = new_lines crossing_peaks
   \<and> objs (fst (divide_line_orientation (heap_with (new_lines crossing_peaks)) 0 (pi / 12) False)) 1
        = crossing_table"
  using inplace_is_the_default [of "heap_with (new_lines crossing_peaks)" 0 "pi / 12"]
  by (simp add: heap_with_simps classified_crossing)

subsection \<open>The resolver\<close>

text \<open>
  C4 as stated fails with the geometry of the specification, whose \<open>intersect\<close> fails
  with ParallelLines on a zero determinant: in \<open>parallel_table\<close> the first pair of the
  product is parallel and the second pair crosses, yet the resolver hands back no point
  of the second pair but raises ParallelLines.
\<close>

theorem parallel_pair_raises:
  "find_intersections (math_utils_spec 0) (heap_with parallel_table) 0 None = Inl ParallelLines
   \<and> pairwise_intersection (math_utils_spec 0)
        \<lparr>hits = 1, angle = pi / 2, intercept = 50, direction = Some ''horizontal''\<rparr>
        \<lparr>hits = 2, angle = pi / 24, intercept = 30, direction = Some ''vertical''\<rparr> None =
      Inr (Point ((30 - 50 * sin (pi / 24)) / cos (pi / 24)) 50)"
  by (simp add: find_intersections_results heap_with_simps parallel_table_buckets parallel_pair
      crossing_pair corner_def)

text \<open>
  C4, amended. The resolver has no handler around a pair: when the intersection of a pair
  fails and no earlier pair of the product did, that failure leaves the resolver, which
  returns no point at all, whatever the pairs before and after it are.
\<close>

theorem pair_failure_aborts_the_batch:
  assumes "''direction'' \<in> set (columns (objs h lines))"
    and "List.product (select_direction (objs h lines) ''vertical'')
           (select_direction (objs h lines) ''horizontal'') = before @ (v, hz) # after"
    and "\<forall>(v', hz') \<in> set before. \<not> isl (pairwise_intersection mu hz' v' img)"
    and "pairwise_intersection mu hz v img = Inl e"
  shows "find_intersections mu h lines img = Inl e"
proof -
  let ?F = "\<lambda>(v, hz). pairwise_intersection mu hz v img"
  have "\<forall>p \<in> set before. \<not> isl (?F p)"
    using assms(3) by auto
  moreover have "?F (v, hz) = Inl e"
    using assms(4) by simp
  ultimately have "List.find isl (map ?F (before @ (v, hz) # after)) = Some (Inl e)"
    by (rule find_isl_append_failure)
  then show ?thesis
    using assms(1,2) by (simp add: find_intersections_results)
qed

theorem pair_failure_aborts_the_batch_witness:
  "find_intersections (math_utils_spec 0) (heap_with parallel_table) 0 None = Inl ParallelLines"
  using pair_failure_aborts_the_batch [of "heap_with parallel_table" 0 "[]"
      "\<lparr>hits = 3, angle = pi / 2, intercept = 10, direction = Some ''vertical''\<rparr>"
      "\<lparr>hits = 1, angle = pi / 2, intercept = 50, direction = Some ''horizontal''\<rparr>"
      "[(\<lparr>hits = 2, angle = pi / 24, intercept = 30, direction = Some ''vertical''\<rparr>,
         \<lparr>hits = 1, angle = pi / 2, intercept = 50, direction = Some ''horizontal''\<rparr>)]"
      "math_utils_spec 0" None ParallelLines]
  by (simp add: heap_with_simps parallel_table_buckets parallel_pair)

text \<open>
  C6, at the input on which the code fails it. The claim has the resolver return the
  empty sequence, and no error, when the vertical or the horizontal bucket is empty. For
  the table that \<open>select_edge\<close> hands to the resolver when the peak finder finds no
  line, both buckets are empty, and the resolver raises \<open>KeyError\<close>: classification
  writes no direction column into a table without rows, and the handler of the
  \<open>try\<close> catches \<open>ValueError\<close> only. This holds for every store, every
  \<open>math_utils\<close> module and every image.
\<close>

theorem no_peaks_table_raises:
  "select_direction (objs (classified_store h []) (next_ref h)) ''vertical'' = []
   \<and> select_direction (objs (classified_store h []) (next_ref h)) ''horizontal'' = []
   \<and> find_intersections mu (classified_store h []) (next_ref h) img =
       Inl (KeyError ''direction'')"
  by (simp add: objs_classified_store find_intersections_results select_direction_def
      classified_def new_lines_def)

text \<open>
  C7. For every input, the number of points the resolver returns is at most
  \<open>|horizontals| * |verticals|\<close>.
\<close>

theorem count_bound:
  "count_of (find_intersections mu h lines img) \<le>
     length (select_direction (objs h lines) ''horizontal'') *
     length (select_direction (objs h lines) ''vertical'')"
  by (simp add: find_intersections_results count_of_def split: option.split)

theorem count_bound_witness:
  "count_of (find_intersections (math_utils_spec 0) (heap_with crossing_table) 0 None) \<le> 2 * 2"
  using count_bound [of "math_utils_spec 0" "heap_with crossing_table" 0 None]
  by (simp add: heap_with_simps crossing_table_buckets)

text \<open>
  C8. Without a contour image, \<open>_pairwise_intersection\<close> converts and intersects the
  two lines over the sampling interval \<open>(0, 1000)\<close>; with an image, over
  \<open>(0, image width)\<close>, the width being \<open>shape[1]\<close>.
\<close>

theorem sampling_interval:
  "pairwise_intersection mu hp vp None = resolve_pair mu (0, 1000) hp vp
   \<and> pairwise_intersection mu hp vp (Some img) = resolve_pair mu (0, real (snd (shape img))) hp vp"
  by (simp add: pairwise_resolve_pair)

text \<open>
  C10. The output order is fixed by the input order: the resolver runs through the
  lines labelled vertical in table order and, for each, through the lines labelled
  horizontal in table order, and when every pair has an intersection the output is the
  sequence of these points in that order, one per pair.
\<close>

theorem output_order:
  assumes "''direction'' \<in> set (columns (objs h lines))"
    and "\<forall>v \<in> set (filter (\<lambda>l. direction l = Some ''vertical'') (rows (objs h lines))).
         \<forall>hz \<in> set (filter (\<lambda>l. direction l = Some ''horizontal'') (rows (objs h lines))).
           pairwise_intersection mu hz v img = Inr (f v hz)"
  shows "find_intersections mu h lines img =
           Inr (h, concat (map (\<lambda>v. map (\<lambda>hz. f v hz)
                    (filter (\<lambda>l. direction l = Some ''horizontal'') (rows (objs h lines))))
                  (filter (\<lambda>l. direction l = Some ''vertical'') (rows (objs h lines)))))"
proof -
  let ?V = "filter (\<lambda>l. direction l = Some ''vertical'') (rows (objs h lines))"
  let ?H = "filter (\<lambda>l. direction l = Some ''horizontal'') (rows (objs h lines))"
  let ?F = "\<lambda>(v, hz). pairwise_intersection mu hz v img"
  have ok: "\<forall>p \<in> set (List.product ?V ?H). ?F p = Inr (case p of (v, hz) \<Rightarrow> f v hz)"
    using assms(2) by auto
  then have none: "List.find isl (map ?F (List.product ?V ?H)) = None"
    by (auto simp add: find_None_iff)
  have "map (\<lambda>(v, hz). projr (pairwise_intersection mu hz v img)) (List.product ?V ?H) =
        map (\<lambda>(v, hz). f v hz) (List.product ?V ?H)"
    using ok by (intro map_cong) auto
  then show ?thesis
    using assms(1) none
    by (simp add: find_intersections_results select_direction_def map_product)
qed

theorem output_order_witness:
  "find_intersections (math_utils_spec 0) (heap_with crossing_table) 0 None =
     Inr (heap_with crossing_table,
          [Point ((30 - 50 * sin (pi / 24)) / cos (pi / 24)) 50,
           Point ((30 - 60 * sin (pi / 24)) / cos (pi / 24)) 60,
           Point ((40 - 50 * sin (pi / 24)) / cos (pi / 24)) 50,
           Point ((40 - 60 * sin (pi / 24)) / cos (pi / 24)) 60])"
proof -
  let ?h = "heap_with crossing_table"
  have V: "filter (\<lambda>l. direction l = Some ''vertical'') (rows (objs ?h 0)) =
      [\<lparr>hits = 5, angle = pi / 24, intercept = 30, direction = Some ''vertical''\<rparr>,
       \<lparr>hits = 2, angle = pi / 24, intercept = 40, direction = Some ''vertical''\<rparr>]"
    using crossing_table_buckets(1) by (simp add: heap_with_simps select_direction_def)
  have H: "filter (\<lambda>l. direction l = Some ''horizontal'') (rows (objs ?h 0)) =
      [\<lparr>hits = 4, angle = pi / 2, intercept = 50, direction = Some ''horizontal''\<rparr>,
       \<lparr>hits = 1, angle = pi / 2, intercept = 60, direction = Some ''horizontal''\<rparr>]"
    using crossing_table_buckets(2) by (simp add: heap_with_simps select_direction_def)
  have dir: "''direction'' \<in> set (columns (objs ?h 0))"
    by (simp add: heap_with_simps crossing_table_buckets(3))
  have ok: "\<forall>v \<in> set (filter (\<lambda>l. direction l = Some ''vertical'') (rows (objs ?h 0))).
            \<forall>hz \<in> set (filter (\<lambda>l. direction l = Some ''horizontal'') (rows (objs ?h 0))).
              pairwise_intersection (math_utils_spec 0) hz v None = Inr (corner v hz)"
    unfolding V H by (simp add: crossing_pair)
  show ?thesis
    using output_order [OF dir ok] unfolding V H by (simp add: corner_def)
qed

subsection \<open>The orchestrator\<close>

text \<open>
  C1 as stated fails: \<open>select_edge\<close> does not return the points of the resolver. For
  the peaks \<open>corner_peaks\<close> the resolver yields one corner, and \<open>select_edge\<close>
  returns the four column labels of the table of lines.
\<close>

theorem select_edge_does_not_return_corners:
  "select_edge (math_utils_spec 0) (\<lambda>u. corner_peaks) heap0 frame_result None None =
     Inr (heap_with corner_table, None, [''hits'', ''angle'', ''intercept'', ''direction''])
   \<and> find_intersections (math_utils_spec 0)
        (classified_store heap0 corner_peaks) (next_ref heap0) (Some (contour_image frame_result)) =
     Inr (heap_with corner_table, [Point ((30 - 50 * sin (pi / 24)) / cos (pi / 24)) 50])"
  by (simp add: select_edge_classified classified_store_heap0 classified_corner next_ref_heap0
      corner_table_resolved heap_with_simps) (simp add: corner_table_def)

text \<open>
  C1, amended. \<open>select_edge\<close> classifies the lines and resolves the intersections, which
  it uses for the overlay only; what it returns is \<open>list(lines)\<close>. Whenever it
  returns, the value is the list of the four column labels of the classified table, and
  when the resolver returns, whatever its points, a call without overlay returns these
  labels.
\<close>

theorem select_edge_returns_column_labels:
  "(select_edge mu pf h result ax img = Inr (h', ax', ret) \<longrightarrow>
      ret = [''hits'', ''angle'', ''intercept'', ''direction''])
   \<and> (find_intersections mu
         (classified_store h (pf (hough result)))
         (next_ref h) (Some (contour_image result)) = Inr (h3, pts) \<longrightarrow>
       select_edge mu pf h result None img =
         Inr (h3, None, [''hits'', ''angle'', ''intercept'', ''direction'']))"
proof -
  let ?h2 = "classified_store h (pf (hough result))"
  let ?res = "find_intersections mu ?h2 (next_ref h) (Some (contour_image result))"
  have labels: "columns (objs k (next_ref h)) = [''hits'', ''angle'', ''intercept'', ''direction'']"
    if "?res = Inr (k, ps)" for k ps
  proof -
    from that have k: "k = ?h2" by (rule find_intersections_keeps_store)
    from that have "''direction'' \<in> set (columns (objs ?h2 (next_ref h)))"
      by (rule find_intersections_needs_column)
    then have "pf (hough result) \<noteq> []"
      by (auto simp add: objs_classified_store columns_classified_new_lines split: if_splits)
    then show ?thesis
      by (simp add: k objs_classified_store columns_classified_new_lines)
  qed
  have first: "ret = [''hits'', ''angle'', ''intercept'', ''direction'']"
    if "select_edge mu pf h result ax img = Inr (h', ax', ret)"
    using that labels
    by (auto simp add: select_edge_classified split: sum.splits option.splits prod.splits)
  have second: "select_edge mu pf h result None img =
      Inr (h3, None, [''hits'', ''angle'', ''intercept'', ''direction''])"
    if "?res = Inr (h3, pts)"
    using that labels [OF that] by (simp add: select_edge_classified)
  from first second show ?thesis by blast
qed

theorem select_edge_returns_column_labels_witness:
  "find_intersections (math_utils_spec 0) (classified_store heap0 corner_peaks) (next_ref heap0)
     (Some (contour_image frame_result)) =
     Inr (heap_with corner_table, [Point ((30 - 50 * sin (pi / 24)) / cos (pi / 24)) 50])
   \<and> select_edge (math_utils_spec 0) (\<lambda>u. corner_peaks) heap0 frame_result None None =
     Inr (heap_with corner_table, None, [''hits'', ''angle'', ''intercept'', ''direction''])"
proof -
  have res: "find_intersections (math_utils_spec 0)
      (classified_store heap0 (corner_peaks)) (next_ref heap0)
      (Some (contour_image frame_result)) =
      Inr (heap_with corner_table, [Point ((30 - 50 * sin (pi / 24)) / cos (pi / 24)) 50])"
    by (simp add: classified_store_heap0 classified_corner next_ref_heap0 corner_table_resolved)
  then show ?thesis
    using select_edge_returns_column_labels
      [of "math_utils_spec 0" "\<lambda>u. corner_peaks" heap0 frame_result None None
        "heap_with corner_table" None "[''hits'', ''angle'', ''intercept'', ''direction'']"
        "heap_with corner_table" "[Point ((30 - 50 * sin (pi / 24)) / cos (pi / 24)) 50]"]
    by simp
qed

text \<open>
  C3, at the input on which the code fails it. The claim has the stage return an empty
  result for an empty line sequence, and the operation never raise. For the empty line
  sequence \<open>select_edge\<close> raises \<open>KeyError\<close>, whatever the store, the
  \<open>math_utils\<close> module, the axes and the image are: the table of no peaks never gets
  a direction column, the lookup \<open>lines['direction']\<close> raises \<open>KeyError\<close>, and the
  handler in \<open>_find_intersections\<close> catches \<open>ValueError\<close> only. The resolver
  called on that table as it is built raises the same error.
\<close>

theorem empty_line_sequence_raises:
  "select_edge mu (\<lambda>u. []) h result ax img = Inl (KeyError ''direction'')
   \<and> find_intersections mu (heap_with (new_lines [])) 0 contour = Inl (KeyError ''direction'')"
  by (simp add: select_edge_classified objs_classified_store find_intersections_results
      heap_with_simps classified_def new_lines_def)

subsection \<open>Reordering the input\<close>

text \<open>
  C9. Permuting the line sequence changes only the order of the results: when the rows
  of the table are permuted, classification followed by resolution yields, for every
  label, the same set of lines carrying it, the same set of intersection points, and a
  failure exactly when the original order yields one.
\<close>

theorem permutation_stability:
  assumes "mset ys = mset (rows (objs h lines))"
  shows "set (select_direction
                (objs (fst (divide_line_orientation
                   (h\<lparr>objs := (objs h)(lines := (objs h lines)\<lparr>rows := ys\<rparr>)\<rparr>) lines t True)) lines) d) =
         set (select_direction (objs (fst (divide_line_orientation h lines t True)) lines) d)
       \<and> points_of (find_intersections mu
            (fst (divide_line_orientation
               (h\<lparr>objs := (objs h)(lines := (objs h lines)\<lparr>rows := ys\<rparr>)\<rparr>) lines t True)) lines img) =
         points_of (find_intersections mu (fst (divide_line_orientation h lines t True)) lines img)
       \<and> isl (find_intersections mu
            (fst (divide_line_orientation
               (h\<lparr>objs := (objs h)(lines := (objs h lines)\<lparr>rows := ys\<rparr>)\<rparr>) lines t True)) lines img) =
         isl (find_intersections mu (fst (divide_line_orientation h lines t True)) lines img)"
proof -
  let ?df = "objs h lines"
  let ?g = "\<lambda>l. l\<lparr>direction := Some (label (classify t (angle l)))\<rparr>"
  from assms have sets: "set ys = set (rows ?df)"
    by (rule mset_eq_setD)
  from assms have empty: "ys = [] \<longleftrightarrow> rows ?df = []"
    by (metis mset_zero_iff)
  have cols: "columns (classified t (?df\<lparr>rows := ys\<rparr>)) = columns (classified t ?df)"
    using empty by (simp add: classified_def)
  have sel: "set (select_direction (classified t (?df\<lparr>rows := ys\<rparr>)) d') =
             set (select_direction (classified t ?df) d')" for d'
    using sets by (simp add: select_direction_def classified_def)
  show ?thesis
    by (simp add: divide_inplace points_of_find_intersections isl_find_intersections cols sel)
qed

theorem permutation_stability_witness:
  "mset (rev (rows (new_lines crossing_peaks))) =
     mset (rows (objs (heap_with (new_lines crossing_peaks)) 0))
   \<and> set (select_direction (classified (pi / 12)
          ((new_lines crossing_peaks)\<lparr>rows := rev (rows (new_lines crossing_peaks))\<rparr>)) ''vertical'') =
       set (select_direction crossing_table ''vertical'')
   \<and> points_of (find_intersections (math_utils_spec 0)
          (heap_with (classified (pi / 12)
             ((new_lines crossing_peaks)\<lparr>rows := rev (rows (new_lines crossing_peaks))\<rparr>))) 0 None) =
       points_of (find_intersections (math_utils_spec 0) (heap_with crossing_table) 0 None)"
  using permutation_stability [of "rev (rows (new_lines crossing_peaks))"
      "heap_with (new_lines crossing_peaks)" 0 "pi / 12" "''vertical''" "math_utils_spec 0" None]
  by (simp add: divide_inplace heap_with_simps heap_with_update classified_crossing)

end
